theory Spec2Isabelle
  imports Main
begin

section \<open>Strings\<close>

text \<open>
  A JavaScript string is modelled as a \<^typ>\<open>string\<close>: one \<^typ>\<open>char\<close> per code unit,
  for the code units U+0000 to U+00FF. The helpers below are the library methods the
  sources call (\<^verbatim>\<open>trim\<close>, \<^verbatim>\<open>toUpperCase\<close>, \<^verbatim>\<open>toLowerCase\<close>,
  \<^verbatim>\<open>startsWith\<close>, \<^verbatim>\<open>includes\<close>). The two case conversions are modelled on the ASCII
  letters: the sources compare their results with ASCII text only, and no other
  character of the range is converted to an ASCII letter that such a comparison could
  match.
\<close>

definition squote :: char where
  "squote = CHR 0x27"

definition dquote :: char where
  "dquote = CHR 0x22"

text \<open>White space and line terminators of ECMAScript below U+0100:
  TAB, LF, VT, FF, CR, SP and NBSP.\<close>

definition is_ws :: "char \<Rightarrow> bool" where
  "is_ws c = (c \<in> set [CHR 0x09, CHR 0x0A, CHR 0x0B, CHR 0x0C, CHR 0x0D, CHR 0x20, CHR 0xA0])"

definition trim :: "string \<Rightarrow> string" where
  "trim s = rev (dropWhile is_ws (rev (dropWhile is_ws s)))"

definition lower_letters :: string where
  "lower_letters = ''abcdefghijklmnopqrstuvwxyz''"

definition upper_letters :: string where
  "upper_letters = ''ABCDEFGHIJKLMNOPQRSTUVWXYZ''"

definition toUpperChar :: "char \<Rightarrow> char" where
  "toUpperChar c = (case map_of (zip lower_letters upper_letters) c of Some u \<Rightarrow> u | None \<Rightarrow> c)"

definition toLowerChar :: "char \<Rightarrow> char" where
  "toLowerChar c = (case map_of (zip upper_letters lower_letters) c of Some l \<Rightarrow> l | None \<Rightarrow> c)"

definition toUpperCase :: "string \<Rightarrow> string" where
  "toUpperCase s = map toUpperChar s"

definition toLowerCase :: "string \<Rightarrow> string" where
  "toLowerCase s = map toLowerChar s"

definition startsWith :: "string \<Rightarrow> string \<Rightarrow> bool" where
  "startsWith s p = (take (length p) s = p)"

fun includes_str :: "string \<Rightarrow> string \<Rightarrow> bool" where
  "includes_str [] p = (p = [])"
| "includes_str (c # cs) p = (startsWith (c # cs) p \<or> includes_str cs p)"

section \<open>Errors\<close>

text \<open>
  Every \<^verbatim>\<open>throw\<close> of the sources is a value of this type, carrying the message of the
  JavaScript \<^verbatim>\<open>Error\<close>. \<open>InvalidIdentifier\<close> is the error of the two name checks of
  \<^verbatim>\<open>server.js\<close>, \<open>TypeError\<close> the one the language raises itself, and
  \<open>ExecutionError\<close> the one the database client raises.
\<close>

datatype error = InvalidIdentifier string | TypeError string | ExecutionError string

fun error_message :: "error \<Rightarrow> string" where
  "error_message (InvalidIdentifier m) = m"
| "error_message (TypeError m) = m"
| "error_message (ExecutionError m) = m"

section \<open>Identifier validation (\<^verbatim>\<open>server.js\<close>, lines 30 to 46)\<close>

definition in_range :: "char \<Rightarrow> char \<Rightarrow> char \<Rightarrow> bool" where
  "in_range lo hi c = ((of_char lo :: nat) \<le> of_char c \<and> (of_char c :: nat) \<le> of_char hi)"

text \<open>The character class \<^verbatim>\<open>[a-zA-Z0-9_]\<close>: three ranges of code units and the underscore.\<close>

definition ident_char :: "char \<Rightarrow> bool" where
  "ident_char c = (in_range CHR ''a'' CHR ''z'' c \<or> in_range CHR ''A'' CHR ''Z'' c
     \<or> in_range CHR ''0'' CHR ''9'' c \<or> c = CHR ''_'')"

text \<open>\<^verbatim>\<open>/^[a-zA-Z0-9_]+$/.test(s)\<close>: the regular expression has no flags, so \<^verbatim>\<open>^\<close> and
  \<^verbatim>\<open>$\<close> are the two ends of the input and \<^verbatim>\<open>+\<close> asks for one character at least.\<close>

fun ident_chars :: "string \<Rightarrow> bool" where
  "ident_chars [] = True"
| "ident_chars (c # cs) = (ident_char c \<and> ident_chars cs)"

definition ident_regex_test :: "string \<Rightarrow> bool" where
  "ident_regex_test s = (case s of [] \<Rightarrow> False | c # cs \<Rightarrow> ident_chars (c # cs))"

definition sanitizeTableName :: "string \<Rightarrow> error + string" where
  "sanitizeTableName tableName =
     (if \<not> ident_regex_test tableName
      then Inl (InvalidIdentifier (''Invalid table name format: '' @ tableName))
      else Inr tableName)"

definition sanitizeColumnName :: "string \<Rightarrow> error + string" where
  "sanitizeColumnName columnName =
     (if \<not> ident_regex_test columnName
      then Inl (InvalidIdentifier (''Invalid column name: '' @ columnName))
      else Inr columnName)"

text \<open>The specification's wording of a valid identifier: not empty, and made of ASCII
  letters, digits and underscores only.\<close>

definition ascii_letters :: string where
  "ascii_letters = ''abcdefghijklmnopqrstuvwxyzABCDEFGHIJKLMNOPQRSTUVWXYZ''"

definition ascii_digits :: string where
  "ascii_digits = ''0123456789''"

definition valid_identifier :: "string \<Rightarrow> bool" where
  "valid_identifier s =
     (s \<noteq> [] \<and> set s \<subseteq> set ascii_letters \<union> set ascii_digits \<union> {CHR ''_''})"

section \<open>Statement splitting (\<^verbatim>\<open>splitQueries\<close>, query executor, lines 4 to 11)\<close>

text \<open>
  The look-ahead \<^verbatim>\<open>(?=(?:(?:[^']){2})*[^']*$)\<close> of the splitting expression, at the text
  \<open>rest\<close> that follows a semicolon: some number \<open>k\<close> of pairs of characters other than
  a single quote, then characters other than a single quote up to the end of the input.
\<close>

definition not_quote :: "char \<Rightarrow> bool" where
  "not_quote c = (c \<noteq> squote)"

definition lookahead :: "string \<Rightarrow> bool" where
  "lookahead rest =
     list_ex (\<lambda>k. list_all not_quote (take (2 * k) rest) \<and> list_all not_quote (drop (2 * k) rest))
       [0..<Suc (length rest div 2)]"

text \<open>
  \<^verbatim>\<open>sql.split(/;(?=...)/)\<close>: the expression matches one semicolon, at the places where
  the look-ahead holds; the pieces between the matches are returned, the empty ones too.
\<close>

fun split_re :: "string \<Rightarrow> string list" where
  "split_re [] = [[]]"
| "split_re (c # cs) =
     (if c = CHR '';'' \<and> lookahead cs then [] # split_re cs
      else (case split_re cs of [] \<Rightarrow> [[c]] | p # ps \<Rightarrow> (c # p) # ps))"

definition splitQueries :: "string \<Rightarrow> string list" where
  "splitQueries sql =
     (if sql = [] \<or> trim sql = [] then []
      else filter (\<lambda>s. length s > 0) (map trim (split_re sql)))"

section \<open>Statement classification (\<^verbatim>\<open>server.js\<close>, lines 203 to 210)\<close>

definition isExecute :: "string \<Rightarrow> bool" where
  "isExecute query =
     (let upperQuery = toUpperCase (trim query)
      in startsWith upperQuery ''CREATE'' \<or>
         startsWith upperQuery ''ALTER'' \<or>
         startsWith upperQuery ''DROP'' \<or>
         startsWith upperQuery ''INSERT'' \<or>
         startsWith upperQuery ''UPDATE'' \<or>
         startsWith upperQuery ''DELETE'' \<or>
         startsWith upperQuery ''TRUNCATE'')"

text \<open>The two branches of the handler that \<^verbatim>\<open>isExecute\<close> selects: a statement run for
  its row count, or one run for its rows.\<close>

datatype stmt_kind = MUTATING | QUERY

definition classify :: "string \<Rightarrow> stmt_kind" where
  "classify query = (if isExecute query then MUTATING else QUERY)"

text \<open>The specification's wording: the keywords, and a comparison of a statement's first
  characters with a keyword that ignores the case of ASCII letters.\<close>

definition mutating_keywords :: "string list" where
  "mutating_keywords =
     [''CREATE'', ''ALTER'', ''DROP'', ''INSERT'', ''UPDATE'', ''DELETE'', ''TRUNCATE'']"

definition eq_ci :: "char \<Rightarrow> char \<Rightarrow> bool" where
  "eq_ci a b = (a = b \<or> (a, b) \<in> set (zip lower_letters upper_letters)
     \<or> (b, a) \<in> set (zip lower_letters upper_letters))"

definition starts_with_ci :: "string \<Rightarrow> string \<Rightarrow> bool" where
  "starts_with_ci s kw = (length kw \<le> length s \<and> list_all2 eq_ci (take (length kw) s) kw)"

section \<open>Numbers and values\<close>

text \<open>
  A JavaScript Number is modelled by its decimal value: \<open>Fin neg s e\<close> is the number
  \<open>s\<close> times ten to the power \<open>e\<close>, negated when \<open>neg\<close> holds. The digits \<open>s\<close> have
  no trailing zero (and \<open>e = 0\<close> when \<open>s = 0\<close>), so that a number has one representation
  and \<open>s\<close>, written in decimal, is the digit string of \<^verbatim>\<open>Number::toString\<close>. The two
  ends of the binary64 range are modelled: a magnitude of \<open>2 ^ 1024 - 2 ^ 970\<close> or more is
  infinite, one of \<open>2\<close> to the power \<open>- 1075\<close> or less is zero. The rounding of the digits
  to 53 bits in between is not modelled.
\<close>

datatype jsnum = NaN | Infinity bool | Fin bool nat int

function strip_zeros :: "nat \<Rightarrow> int \<Rightarrow> nat \<times> int" where
  "strip_zeros s e = (if s \<noteq> 0 \<and> s mod 10 = 0 then strip_zeros (s div 10) (e + 1) else (s, e))"
  by pat_completeness auto
termination
  by (relation "measure fst") auto

declare strip_zeros.simps [simp del]

definition overflows :: "nat \<Rightarrow> int \<Rightarrow> bool" where
  "overflows s e =
     (if 0 \<le> e then 2 ^ 1024 - 2 ^ 970 \<le> s * 10 ^ nat e
      else (2 ^ 1024 - 2 ^ 970) * 10 ^ nat (- e) \<le> s)"

definition underflows :: "nat \<Rightarrow> int \<Rightarrow> bool" where
  "underflows s e = (e < 0 \<and> s * 2 ^ 1075 \<le> 10 ^ nat (- e))"

definition decimal :: "bool \<Rightarrow> nat \<Rightarrow> int \<Rightarrow> jsnum" where
  "decimal neg s e =
     (if s = 0 then Fin neg 0 0
      else if overflows s e then Infinity neg
      else if underflows s e then Fin neg 0 0
      else (case strip_zeros s e of (s', e') \<Rightarrow> Fin neg s' e'))"

definition number_of_nat :: "nat \<Rightarrow> jsnum" where
  "number_of_nat n = decimal False n 0"

definition isNaN :: "jsnum \<Rightarrow> bool" where
  "isNaN x = (x = NaN)"

definition isFinite :: "jsnum \<Rightarrow> bool" where
  "isFinite x = (case x of Fin neg s e \<Rightarrow> True | _ \<Rightarrow> False)"

definition is_digit :: "char \<Rightarrow> bool" where
  "is_digit c = in_range CHR ''0'' CHR ''9'' c"

text \<open>The value of a character as a digit of a radix up to 36; 36 for any other character.\<close>

definition digit_val :: "char \<Rightarrow> nat" where
  "digit_val c =
     (if is_digit c then of_char c - 48
      else if in_range CHR ''a'' CHR ''z'' c then of_char c - 87
      else if in_range CHR ''A'' CHR ''Z'' c then of_char c - 55
      else 36)"

definition digits_value :: "nat \<Rightarrow> string \<Rightarrow> nat" where
  "digits_value R ds = foldl (\<lambda>a c. R * a + digit_val c) 0 ds"

text \<open>\<^verbatim>\<open>ExponentPart\<close> at the start of a string: \<^verbatim>\<open>e\<close> or \<^verbatim>\<open>E\<close>, an optional sign and
  one digit at least; 0 when there is none.\<close>

definition exp_digits :: "bool \<Rightarrow> string \<Rightarrow> int" where
  "exp_digits neg r =
     (let ds = takeWhile is_digit r
      in if ds = [] then 0
         else if neg then - int (digits_value 10 ds) else int (digits_value 10 ds))"

definition exponent_part :: "string \<Rightarrow> int" where
  "exponent_part r =
     (if startsWith r ''e'' \<or> startsWith r ''E''
      then (if startsWith (tl r) ''+'' then exp_digits False (tl (tl r))
            else if startsWith (tl r) ''-'' then exp_digits True (tl (tl r))
            else exp_digits False (tl r))
      else 0)"

text \<open>
  \<^verbatim>\<open>parseFloat(input)\<close>: leading white space is skipped and the longest prefix that is a
  \<^verbatim>\<open>StrDecimalLiteral\<close> (a sign, then \<^verbatim>\<open>Infinity\<close> or digits with an optional fraction
  and exponent) is the value; NaN when there is no such prefix.
\<close>

definition parseFloat :: "string \<Rightarrow> jsnum" where
  "parseFloat input =
     (let t = dropWhile is_ws input;
          neg = startsWith t ''-'';
          u = (if startsWith t ''-'' \<or> startsWith t ''+'' then tl t else t)
      in if startsWith u ''Infinity'' then Infinity neg
         else
           let ip = takeWhile is_digit u;
               r1 = dropWhile is_digit u;
               fp = (if startsWith r1 ''.'' then takeWhile is_digit (tl r1) else []);
               r2 = (if startsWith r1 ''.'' then dropWhile is_digit (tl r1) else r1)
           in if ip = [] \<and> fp = [] then NaN
              else decimal neg (digits_value 10 (ip @ fp)) (exponent_part r2 - int (length fp)))"

text \<open>
  \<^verbatim>\<open>parseInt(input, radix)\<close>, the radix \<open>None\<close> when the call gives none: white space and
  a sign are skipped, \<^verbatim>\<open>0x\<close> selects radix 16 where the radix allows it, and the longest
  run of digits of the radix is the value; NaN when that run is empty.
\<close>

definition parseInt :: "string \<Rightarrow> nat option \<Rightarrow> jsnum" where
  "parseInt input radix =
     (let t = dropWhile is_ws input;
          neg = startsWith t ''-'';
          u = (if startsWith t ''-'' \<or> startsWith t ''+'' then tl t else t);
          R0 = (case radix of None \<Rightarrow> 0 | Some r \<Rightarrow> r)
      in if R0 \<noteq> 0 \<and> (R0 < 2 \<or> 36 < R0) then NaN
         else
           let hex = ((R0 = 0 \<or> R0 = 16) \<and> (startsWith u ''0x'' \<or> startsWith u ''0X''));
               R = (if R0 = 0 then (if hex then 16 else 10) else R0);
               v = (if hex then drop 2 u else u);
               ds = takeWhile (\<lambda>c. digit_val c < R) v
           in if ds = [] then NaN else decimal neg (digits_value R ds) 0)"

text \<open>The decimal digits of a natural number (\<^verbatim>\<open>String(n)\<close> for a small integer).\<close>

fun show_nat :: "nat \<Rightarrow> string" where
  "show_nat n =
     (if n < 10 then [ascii_digits ! n] else show_nat (n div 10) @ [ascii_digits ! (n mod 10)])"

declare show_nat.simps [simp del]

text \<open>
  \<^verbatim>\<open>Number::toString\<close> in radix 10, with its \<open>k\<close> digits and its exponent \<open>n\<close>: plain
  digits when \<open>k \<le> n \<le> 21\<close>, a decimal point inside when \<open>0 < n \<le> 21\<close>, a leading
  \<^verbatim>\<open>0.\<close> when \<open>-6 < n \<le> 0\<close>, and the exponent notation in every other case.
\<close>

definition number_toString :: "jsnum \<Rightarrow> string" where
  "number_toString x =
     (case x of
        NaN \<Rightarrow> ''NaN''
      | Infinity neg \<Rightarrow> (if neg then ''-Infinity'' else ''Infinity'')
      | Fin neg s e \<Rightarrow>
          if s = 0 then ''0''
          else
            let digits = show_nat s;
                k = int (length digits);
                n = k + e;
                sign = (if neg then ''-'' else '''')
            in sign @
               (if k \<le> n \<and> n \<le> 21 then digits @ replicate (nat (n - k)) CHR ''0''
                else if 0 < n \<and> n \<le> 21 then take (nat n) digits @ ''.'' @ drop (nat n) digits
                else if - 6 < n \<and> n \<le> 0 then ''0.'' @ replicate (nat (- n)) CHR ''0'' @ digits
                else
                  let ex = n - 1;
                      es = (if ex < 0 then ''-'' else ''+'') @ show_nat (nat \<bar>ex\<bar>)
                  in if k = 1 then digits @ ''e'' @ es
                     else take 1 digits @ ''.'' @ drop 1 digits @ ''e'' @ es))"

text \<open>
  \<^verbatim>\<open>Number(b)\<close> for a BigInt \<open>b\<close>: the nearest binary64 value, ties to the even
  mantissa. Below \<open>2 ^ 53\<close> the value is kept.
\<close>

fun bit_length :: "nat \<Rightarrow> nat" where
  "bit_length n = (if n = 0 then 0 else Suc (bit_length (n div 2)))"

declare bit_length.simps [simp del]

definition round53 :: "nat \<Rightarrow> nat" where
  "round53 n =
     (if n < 2 ^ 53 then n
      else
        let e = bit_length n - 53;
            q = n div 2 ^ e;
            r = n mod 2 ^ e;
            h = 2 ^ (e - 1)
        in (if h < r \<or> (r = h \<and> odd q) then q + 1 else q) * 2 ^ e)"

definition number_of_bigint :: "int \<Rightarrow> jsnum" where
  "number_of_bigint b = decimal (b < 0) (round53 (nat \<bar>b\<bar>)) 0"

text \<open>The values of a row or of a request body: JSON values and the BigInt of the
  database client.\<close>

datatype jsval = JNull | JBool bool | JNum jsnum | JStr string | JBig int

text \<open>An object: its own properties in the order \<^verbatim>\<open>Object.entries\<close> and \<^verbatim>\<open>for ... in\<close>
  list them.\<close>

type_synonym jsobject = "(string \<times> jsval) list"

section \<open>Type coercion (\<^verbatim>\<open>safeTypeConvert\<close>, table editor, lines 12 to 40)\<close>

text \<open>The value is the text of a cell, or null (\<open>None\<close>).\<close>

definition safeTypeConvert :: "string option \<Rightarrow> string \<Rightarrow> jsval" where
  "safeTypeConvert value columnType =
     (case value of
        None \<Rightarrow> JNull
      | Some v \<Rightarrow>
          if v = '''' \<or> toLowerCase v = ''null'' then JNull
          else if includes_str columnType ''Boolean'' then
            (let lowerValue = toLowerCase v
             in if lowerValue = ''true'' \<or> lowerValue = ''1'' \<or> lowerValue = ''t''
                   \<or> lowerValue = ''yes'' then JBool True
                else if lowerValue = ''false'' \<or> lowerValue = ''0'' \<or> lowerValue = ''f''
                   \<or> lowerValue = ''no'' then JBool False
                else JBool (v \<noteq> ''''))
          else if includes_str columnType ''Int'' \<or> includes_str columnType ''Float''
               \<or> includes_str columnType ''Decimal'' then
            (let parsedValue = parseFloat v
             in if \<not> isNaN parsedValue \<and> isFinite parsedValue
                then JNum (if includes_str columnType ''Int''
                           then parseInt (number_toString parsedValue) (Some 10)
                           else parsedValue)
                else JNull)
          else JStr v)"

section \<open>Batch execution (\<^verbatim>\<open>handleExecuteQuery\<close>, query executor, lines 24 to 115)\<close>

















section \<open>The database behind the client calls\<close>

text \<open>
  The handlers of \<^verbatim>\<open>server.js\<close> reach the database through the client's raw calls. The
  five statements they build themselves are modelled on a store of tables: a table has
  its columns as \<^verbatim>\<open>PRAGMA table_info\<close> lists them, its rows (objects keyed by the column
  names), and the key the engine assigns to the next row. Names are compared as SQLite
  does, without regard to the case of ASCII letters. Values are stored as they are
  passed; column constraints (a key that exists already is not refused) and type
  affinity are not modelled, the next key is a counter where SQLite takes the largest
  key plus one, and the text of an engine error stands for the client's.
\<close>

record column =
  col_name :: string
  col_type :: string
  col_pk :: bool

record table =
  tbl_columns :: "column list"
  tbl_rows :: "jsobject list"
  tbl_next :: nat

type_synonym database = "(string \<times> table) list"

definition same_ident :: "string \<Rightarrow> string \<Rightarrow> bool" where
  "same_ident a b = (toLowerCase a = toLowerCase b)"

text \<open>The table of a name is the first one of that name; a statement changes that one.\<close>

fun find_table :: "database \<Rightarrow> string \<Rightarrow> table option" where
  "find_table [] t = None"
| "find_table ((n, tb) # db) t = (if same_ident n t then Some tb else find_table db t)"

fun update_table :: "database \<Rightarrow> string \<Rightarrow> (table \<Rightarrow> table) \<Rightarrow> database" where
  "update_table [] t f = []"
| "update_table ((n, tb) # db) t f =
     (if same_ident n t then (n, f tb) # db else (n, tb) # update_table db t f)"

definition has_column :: "table \<Rightarrow> string \<Rightarrow> bool" where
  "has_column tb c = list_ex (\<lambda>col. same_ident (col_name col) c) (tbl_columns tb)"

definition get_col :: "jsobject \<Rightarrow> string \<Rightarrow> jsval option" where
  "get_col row c = map_option snd (find (\<lambda>(k, v). same_ident k c) row)"

definition set_col :: "jsobject \<Rightarrow> string \<Rightarrow> jsval \<Rightarrow> jsobject" where
  "set_col row c v = map (\<lambda>(k, x). if same_ident k c then (k, v) else (k, x)) row"

text \<open>The comparison \<^verbatim>\<open>WHERE pk = ?\<close> with a Number as the parameter: a stored number or
  integer of the same value; NaN and the infinities equal nothing.\<close>

definition is_zero :: "jsnum \<Rightarrow> bool" where
  "is_zero x = (case x of Fin neg s e \<Rightarrow> s = 0 | _ \<Rightarrow> False)"

fun same_number :: "jsval \<Rightarrow> jsnum \<Rightarrow> bool" where
  "same_number (JNum x) y = (isFinite x \<and> isFinite y \<and> (x = y \<or> (is_zero x \<and> is_zero y)))"
| "same_number (JBig b) y =
     (isFinite y \<and> (decimal (b < 0) (nat \<bar>b\<bar>) 0 = y \<or> (b = 0 \<and> is_zero y)))"
| "same_number v y = False"

definition key_matches :: "string \<Rightarrow> jsnum \<Rightarrow> jsobject \<Rightarrow> bool" where
  "key_matches pk y row = (case get_col row pk of None \<Rightarrow> False | Some v \<Rightarrow> same_number v y)"

text \<open>\<^verbatim>\<open>PRAGMA table_info(`t`)\<close>: the columns of the table, none for a table that does
  not exist.\<close>

definition db_table_info :: "database \<Rightarrow> string \<Rightarrow> column list" where
  "db_table_info db t = (case find_table db t of None \<Rightarrow> [] | Some tb \<Rightarrow> tbl_columns tb)"

text \<open>\<^verbatim>\<open>SELECT * FROM `t`\<close>\<close>

definition db_select_all :: "database \<Rightarrow> string \<Rightarrow> error + jsobject list" where
  "db_select_all db t =
     (case find_table db t of
        None \<Rightarrow> Inl (ExecutionError (''no such table: '' @ t))
      | Some tb \<Rightarrow> Inr (tbl_rows tb))"

text \<open>
  \<^verbatim>\<open>INSERT INTO `t` (cols) VALUES (?, ...) RETURNING *\<close> with the values as parameters.
  The new row has every column of the table: the value passed for it, or null; the
  primary key gets the engine's next key when none (or null) is passed for it.
\<close>

definition new_row :: "table \<Rightarrow> (string \<times> jsval) list \<Rightarrow> jsobject" where
  "new_row tb supplied =
     map (\<lambda>col.
       (col_name col,
        (case get_col supplied (col_name col) of
           None \<Rightarrow> if col_pk col then JNum (number_of_nat (tbl_next tb)) else JNull
         | Some v \<Rightarrow>
             if col_pk col \<and> v = JNull then JNum (number_of_nat (tbl_next tb)) else v)))
       (tbl_columns tb)"

definition db_insert ::
  "database \<Rightarrow> string \<Rightarrow> string list \<Rightarrow> jsval list \<Rightarrow> error + jsobject list \<times> database" where
  "db_insert db t cols vals =
     (case find_table db t of
        None \<Rightarrow> Inl (ExecutionError (''no such table: '' @ t))
      | Some tb \<Rightarrow>
          if cols = [] then Inl (ExecutionError ''near \")\": syntax error'')
          else
            (case find (\<lambda>c. \<not> has_column tb c) cols of
               Some c \<Rightarrow> Inl (ExecutionError (''table '' @ t @ '' has no column named '' @ c))
             | None \<Rightarrow>
                 let row = new_row tb (zip cols vals)
                 in Inr ([row],
                      update_table db t
                        (\<lambda>tb. tb\<lparr>tbl_rows := tbl_rows tb @ [row], tbl_next := Suc (tbl_next tb)\<rparr>))))"

text \<open>\<^verbatim>\<open>UPDATE `t` SET `c` = ? WHERE `pk` = ? RETURNING *\<close> with the parameters \<open>v\<close> and
  \<open>y\<close>: the rows whose key matches get the value, and are returned.\<close>

definition db_update ::
  "database \<Rightarrow> string \<Rightarrow> string \<Rightarrow> jsval \<Rightarrow> string \<Rightarrow> jsnum
     \<Rightarrow> error + jsobject list \<times> database" where
  "db_update db t c v pk y =
     (case find_table db t of
        None \<Rightarrow> Inl (ExecutionError (''no such table: '' @ t))
      | Some tb \<Rightarrow>
          if \<not> has_column tb c then Inl (ExecutionError (''no such column: '' @ c))
          else if \<not> has_column tb pk then Inl (ExecutionError (''no such column: '' @ pk))
          else Inr (map (\<lambda>row. set_col row c v) (filter (key_matches pk y) (tbl_rows tb)),
                 update_table db t
                   (\<lambda>tb. tb\<lparr>tbl_rows :=
                      map (\<lambda>row. if key_matches pk y row then set_col row c v else row)
                        (tbl_rows tb)\<rparr>)))"

text \<open>\<^verbatim>\<open>DELETE FROM `t` WHERE `pk` = ?\<close>: the number of rows deleted.\<close>

definition db_delete ::
  "database \<Rightarrow> string \<Rightarrow> string \<Rightarrow> jsnum \<Rightarrow> error + nat \<times> database" where
  "db_delete db t pk y =
     (case find_table db t of
        None \<Rightarrow> Inl (ExecutionError (''no such table: '' @ t))
      | Some tb \<Rightarrow>
          if \<not> has_column tb pk then Inl (ExecutionError (''no such column: '' @ pk))
          else Inr (length (filter (key_matches pk y) (tbl_rows tb)),
                 update_table db t
                   (\<lambda>tb. tb\<lparr>tbl_rows := filter (\<lambda>row. \<not> key_matches pk y row) (tbl_rows tb)\<rparr>)))"

section \<open>The handlers of \<^verbatim>\<open>server.js\<close>\<close>

text \<open>A response: its status and its body. \<^verbatim>\<open>res.json\<close> serialises the body, and
  \<^verbatim>\<open>JSON.stringify\<close> throws a TypeError on a BigInt.\<close>

datatype body =
  ErrorBody string
| RowBody jsobject
| TableBody "column list" "jsobject list"
| RowCountBody nat
| RowsBody "jsobject list" "string list"
| NoBody

record response =
  status :: nat
  payload :: body

fun is_bigint :: "jsval \<Rightarrow> bool" where
  "is_bigint (JBig b) = True"
| "is_bigint v = False"

definition row_has_bigint :: "jsobject \<Rightarrow> bool" where
  "row_has_bigint row = list_ex (\<lambda>(k, v). is_bigint v) row"

fun has_bigint :: "body \<Rightarrow> bool" where
  "has_bigint (RowBody row) = row_has_bigint row"
| "has_bigint (TableBody cols rows) = list_ex row_has_bigint rows"
| "has_bigint (RowsBody rows cols) = list_ex row_has_bigint rows"
| "has_bigint b = False"

definition json :: "nat \<Rightarrow> body \<Rightarrow> error + response" where
  "json code b =
     (if has_bigint b then Inl (TypeError ''Do not know how to serialize a BigInt'')
      else Inr \<lparr>status = code, payload = b\<rparr>)"

text \<open>Lines 20 to 24: the name of the primary key, whatever the table.\<close>

definition getPrimaryKey :: "string \<Rightarrow> string" where
  "getPrimaryKey tableName = ''ID''"

text \<open>\<^verbatim>\<open>GET /api/data/:tableName\<close>, lines 75 to 107.\<close>

definition processedData :: "jsobject list \<Rightarrow> jsobject list" where
  "processedData data =
     map (\<lambda>row. map (\<lambda>(key, v). (key, (case v of JBig b \<Rightarrow> JNum (number_of_bigint b) | _ \<Rightarrow> v))) row)
       data"

definition get_table :: "database \<Rightarrow> string \<Rightarrow> response" where
  "get_table db tableName =
     (let failed = (\<lambda>e. \<lparr>status = 500,
            payload = ErrorBody (''Failed to fetch data for table '' @ tableName @ ''. Error: ''
                        @ error_message e)\<rparr>)
      in case sanitizeTableName tableName of
           Inl e \<Rightarrow> failed e
         | Inr _ \<Rightarrow>
             let columns = db_table_info db tableName
             in (case db_select_all db tableName of
                   Inl e \<Rightarrow> failed e
                 | Inr data \<Rightarrow>
                     (case json 200 (TableBody columns (processedData data)) of
                        Inl e \<Rightarrow> failed e
                      | Inr r \<Rightarrow> r)))"

text \<open>\<^verbatim>\<open>POST /api/data/:tableName\<close>, lines 110 to 145. The body is the parsed object.\<close>

fun sanitize_columns :: "string list \<Rightarrow> error + string list" where
  "sanitize_columns [] = Inr []"
| "sanitize_columns (key # keys) =
     (case sanitizeColumnName key of
        Inl e \<Rightarrow> Inl e
      | Inr c \<Rightarrow> (case sanitize_columns keys of Inl e \<Rightarrow> Inl e | Inr cs \<Rightarrow> Inr (c # cs)))"

definition first_row :: "jsobject list \<Rightarrow> jsobject" where
  "first_row rows = (case rows of [] \<Rightarrow> [] | row # _ \<Rightarrow> row)"

definition post_row :: "database \<Rightarrow> string \<Rightarrow> jsobject \<Rightarrow> response \<times> database" where
  "post_row db tableNameParam reqBody =
     (let failed = (\<lambda>e. \<lparr>status = 500,
            payload = ErrorBody (''Failed to insert row: '' @ error_message e)\<rparr>)
      in case sanitizeTableName tableNameParam of
           Inl e \<Rightarrow> (failed e, db)
         | Inr tableName \<Rightarrow>
             let newData = filter (\<lambda>(key, v). key \<noteq> getPrimaryKey tableName) reqBody
             in (case sanitize_columns (map fst newData) of
                   Inl e \<Rightarrow> (failed e, db)
                 | Inr columns \<Rightarrow>
                     (case db_insert db tableName columns (map snd newData) of
                        Inl e \<Rightarrow> (failed e, db)
                      | Inr (createdRow, db') \<Rightarrow>
                          (case json 201 (RowBody (first_row createdRow)) of
                             Inl e \<Rightarrow> (failed e, db')
                           | Inr r \<Rightarrow> (r, db')))))"

text \<open>\<^verbatim>\<open>PUT /api/data/:tableName/:id\<close>, lines 148 to 171. Destructuring the first entry
  of an object without entries throws a TypeError.\<close>

definition put_row :: "database \<Rightarrow> string \<Rightarrow> string \<Rightarrow> jsobject \<Rightarrow> response \<times> database" where
  "put_row db tableNameParam idParam updateData =
     (let failed = (\<lambda>e. \<lparr>status = 500,
            payload = ErrorBody (''Failed to update cell: '' @ error_message e)\<rparr>)
      in case sanitizeTableName tableNameParam of
           Inl e \<Rightarrow> (failed e, db)
         | Inr tableName \<Rightarrow>
             let pkName = getPrimaryKey tableName;
                 id = parseInt idParam None
             in (case updateData of
                   [] \<Rightarrow> (failed (TypeError ''undefined is not iterable''), db)
                 | (key, v) # _ \<Rightarrow>
                     (case sanitizeColumnName key of
                        Inl e \<Rightarrow> (failed e, db)
                      | Inr columnName \<Rightarrow>
                          (case db_update db tableName columnName v pkName id of
                             Inl e \<Rightarrow> (failed e, db)
                           | Inr (updatedRow, db') \<Rightarrow>
                               (case json 200 (RowBody (first_row updatedRow)) of
                                  Inl e \<Rightarrow> (failed e, db')
                                | Inr r \<Rightarrow> (r, db'))))))"

text \<open>\<^verbatim>\<open>DELETE /api/data/:tableName/:id\<close>, lines 174 to 191.\<close>

definition delete_row :: "database \<Rightarrow> string \<Rightarrow> string \<Rightarrow> response \<times> database" where
  "delete_row db tableNameParam idParam =
     (let failed = (\<lambda>e. \<lparr>status = 500,
            payload = ErrorBody (''Failed to delete row: '' @ error_message e)\<rparr>)
      in case sanitizeTableName tableNameParam of
           Inl e \<Rightarrow> (failed e, db)
         | Inr tableName \<Rightarrow>
             let pkName = getPrimaryKey tableName;
                 id = parseInt idParam None
             in (case db_delete db tableName pkName id of
                   Inl e \<Rightarrow> (failed e, db)
                 | Inr (n, db') \<Rightarrow> (\<lparr>status = 204, payload = NoBody\<rparr>, db')))"

text \<open>
  \<^verbatim>\<open>POST /api/query\<close>, lines 195 to 231. The statement is any text, so the two raw calls
  of the client are parameters: \<open>executeRaw\<close> gives the number of rows affected,
  \<open>queryRaw\<close> the rows, each with the next state of the database of type \<open>'db\<close>. The
  \<open>sql\<close> of the body is \<open>None\<close> when the body has none.
\<close>

type_synonym 'db execute_raw = "'db \<Rightarrow> string \<Rightarrow> (error + nat) \<times> 'db"
type_synonym 'db query_raw = "'db \<Rightarrow> string \<Rightarrow> (error + jsobject list) \<times> 'db"

definition query_failed :: "error \<Rightarrow> response" where
  "query_failed e =
     \<lparr>status = 400,
      payload = ErrorBody (if error_message e = '''' then ''Failed to execute query.''
                           else error_message e)\<rparr>"

definition post_query ::
  "'db execute_raw \<Rightarrow> 'db query_raw \<Rightarrow> 'db \<Rightarrow> string option \<Rightarrow> response \<times> 'db" where
  "post_query executeRaw queryRaw db sql =
     (case sql of
        None \<Rightarrow> (\<lparr>status = 400, payload = ErrorBody ''SQL query is required.''\<rparr>, db)
      | Some query \<Rightarrow>
          if query = '''' then (\<lparr>status = 400, payload = ErrorBody ''SQL query is required.''\<rparr>, db)
          else if isExecute query then
            (case executeRaw db query of
               (Inl e, db') \<Rightarrow> (query_failed e, db')
             | (Inr rowCount, db') \<Rightarrow>
                 (case json 200 (RowCountBody rowCount) of
                    Inl e \<Rightarrow> (query_failed e, db')
                  | Inr r \<Rightarrow> (r, db')))
          else
            (case queryRaw db query of
               (Inl e, db') \<Rightarrow> (query_failed e, db')
             | (Inr rows, db') \<Rightarrow>
                 let columns = (if length rows > 0 then map fst (first_row rows) else [])
                 in (case json 200 (RowsBody rows columns) of
                       Inl e \<Rightarrow> (query_failed e, db')
                     | Inr r \<Rightarrow> (r, db'))))"

section \<open>Example data\<close>

text \<open>The table of the specification's example, with one row, and a server of
  \<^verbatim>\<open>POST /api/query\<close> that updates three rows, then rejects a statement.\<close>

definition users :: table where
  "users =
     \<lparr>tbl_columns =
        [\<lparr>col_name = ''id'', col_type = ''Int'', col_pk = True\<rparr>,
         \<lparr>col_name = ''active'', col_type = ''Boolean'', col_pk = False\<rparr>,
         \<lparr>col_name = ''name'', col_type = ''String'', col_pk = False\<rparr>],
      tbl_rows =
        [[(''id'', JNum (Fin False 1 0)), (''active'', JBool False), (''name'', JStr ''Bob'')]],
      tbl_next = 2\<rparr>"




section \<open>Properties\<close>

subsection \<open>Identifier validation\<close>

lemma ident_char_iff:
  "ident_char c \<longleftrightarrow> c \<in> set ascii_letters \<or> c \<in> set ascii_digits \<or> c = CHR ''_''"
proof -
  have inj: "\<And>d. c = d \<longleftrightarrow> (of_char c :: nat) = of_char d"
    by auto
  show ?thesis
    unfolding ident_char_def in_range_def ascii_letters_def ascii_digits_def
    apply (simp add: inj)
    apply arith
    done
qed

lemma ident_chars_iff:
  "ident_chars s \<longleftrightarrow> set s \<subseteq> set ascii_letters \<union> set ascii_digits \<union> {CHR ''_''}"
  by (induction s) (auto simp: ident_char_iff)

lemma ident_regex_test_iff: "ident_regex_test s \<longleftrightarrow> valid_identifier s"
  unfolding ident_regex_test_def valid_identifier_def
  by (cases s) (simp_all only: ident_chars_iff list.case list.distinct simp_thms not_False_eq_True)

text \<open>
  C2. A table or column name is accepted (and returned as it is) if and only if it is not
  empty and consists of ASCII letters, digits and underscores only; every other string
  is rejected with the InvalidIdentifier error.
\<close>

theorem C2_identifier_validation:
  "(sanitizeTableName s = Inr s \<longleftrightarrow> valid_identifier s) \<and>
   (sanitizeTableName s = Inl (InvalidIdentifier (''Invalid table name format: '' @ s))
      \<longleftrightarrow> \<not> valid_identifier s) \<and>
   (sanitizeColumnName s = Inr s \<longleftrightarrow> valid_identifier s) \<and>
   (sanitizeColumnName s = Inl (InvalidIdentifier (''Invalid column name: '' @ s))
      \<longleftrightarrow> \<not> valid_identifier s)"
  by (simp add: sanitizeTableName_def sanitizeColumnName_def ident_regex_test_iff)

theorem C2_identifier_validation_witness:
  "sanitizeTableName ''users'' = Inr ''users'' \<and>
   sanitizeTableName ''users; DROP TABLE x''
     = Inl (InvalidIdentifier ''Invalid table name format: users; DROP TABLE x'') \<and>
   sanitizeColumnName ''user name'' = Inl (InvalidIdentifier ''Invalid column name: user name'') \<and>
   sanitizeColumnName '''' = Inl (InvalidIdentifier ''Invalid column name: '')"
  using C2_identifier_validation [of "''users''"]
    C2_identifier_validation [of "''users; DROP TABLE x''"]
    C2_identifier_validation [of "''user name''"]
    C2_identifier_validation [of "''''"]
  by (simp add: valid_identifier_def ascii_letters_def ascii_digits_def)

subsection \<open>Statement splitting\<close>

text \<open>The look-ahead holds exactly where no single quote follows.\<close>

lemma lookahead_iff: "lookahead rest \<longleftrightarrow> squote \<notin> set rest"
proof
  assume "lookahead rest"
  then obtain k
    where "list_all not_quote (take (2 * k) rest)" "list_all not_quote (drop (2 * k) rest)"
    unfolding lookahead_def list_ex_iff by blast
  then have "list_all not_quote (take (2 * k) rest @ drop (2 * k) rest)"
    by (simp only: list_all_append simp_thms)
  then show "squote \<notin> set rest"
    by (auto simp: list_all_iff not_quote_def)
next
  assume "squote \<notin> set rest"
  then have "list_all not_quote rest"
    by (auto simp: list_all_iff not_quote_def)
  then have "list_all not_quote (take (2 * 0) rest) \<and> list_all not_quote (drop (2 * 0) rest)"
    by simp
  then show "lookahead rest"
    unfolding lookahead_def list_ex_iff by (intro bexI[of _ 0]) auto
qed

lemma split_re_not_Nil: "split_re s \<noteq> []"
  by (induction s) (auto split: list.splits)

lemma split_re_quote_after:
  "squote \<in> set rest \<Longrightarrow>
   \<exists>p ps. split_re rest = p # ps \<and> split_re (pre @ c # rest) = (pre @ c # p) # ps"
proof (induction pre)
  case Nil
  obtain p ps where "split_re rest = p # ps"
    using split_re_not_Nil [of rest] by (cases "split_re rest") auto
  with Nil show ?case by (simp add: lookahead_iff)
next
  case (Cons a pre)
  then obtain p ps
    where "split_re rest = p # ps" "split_re (pre @ c # rest) = (pre @ c # p) # ps"
    by blast
  moreover from Cons.prems have "\<not> lookahead (pre @ c # rest)"
    by (simp add: lookahead_iff)
  ultimately show ?case by simp
qed

lemma quote_in_rest:
  assumes "odd (count_list pre squote)" "even (count_list (pre @ c # rest) squote)"
    and "c \<noteq> squote"
  shows "squote \<in> set rest"
proof (rule ccontr)
  assume "squote \<notin> set rest"
  then have "count_list rest squote = 0"
    by (simp add: count_list_0_iff)
  with assms show False by simp
qed

text \<open>
  C1. A blob of N semicolon-terminated, non-empty statements with no semicolon inside a
  quoted literal is split into exactly N trimmed statements, in order. The source does not
  do that: the blob below holds two such statements and \<open>splitQueries\<close> returns one,
  because a quoted literal follows the first semicolon.
\<close>

theorem C1_two_statements_one_piece:
  "splitQueries ''SELECT 1; SELECT 'a' AS x;'' = [''SELECT 1; SELECT 'a' AS x'']"
  by (simp add: splitQueries_def trim_def is_ws_def lookahead_iff squote_def)

text \<open>
  C8. A semicolon inside a single-quoted literal does not split: when an odd number of
  quotes precedes the semicolon and the quotes of the blob are balanced, the semicolon
  stays inside the piece it is in; and the blob of the specification's example yields
  exactly one statement.
\<close>

theorem C8_quoted_semicolon:
  "(odd (count_list pre squote) \<and> even (count_list (pre @ CHR '';'' # rest) squote) \<longrightarrow>
      (\<exists>p ps. split_re rest = p # ps \<and>
         split_re (pre @ CHR '';'' # rest) = (pre @ CHR '';'' # p) # ps)) \<and>
   splitQueries ''INSERT INTO t (s) VALUES ('a;b');'' = [''INSERT INTO t (s) VALUES ('a;b')'']"
proof (intro conjI impI)
  assume "odd (count_list pre squote) \<and> even (count_list (pre @ CHR '';'' # rest) squote)"
  then have "odd (count_list pre squote)" "even (count_list (pre @ CHR '';'' # rest) squote)"
    by blast+
  moreover have "CHR '';'' \<noteq> squote"
    by (simp add: squote_def)
  ultimately have "squote \<in> set rest"
    by (rule quote_in_rest)
  then show "\<exists>p ps. split_re rest = p # ps \<and>
         split_re (pre @ CHR '';'' # rest) = (pre @ CHR '';'' # p) # ps"
    by (rule split_re_quote_after)
next
  show "splitQueries ''INSERT INTO t (s) VALUES ('a;b');'' = [''INSERT INTO t (s) VALUES ('a;b')'']"
    by (simp add: splitQueries_def trim_def is_ws_def lookahead_iff squote_def)
qed

theorem C8_quoted_semicolon_witness:
  "split_re ''INSERT INTO t (s) VALUES ('a;b');'' = [''INSERT INTO t (s) VALUES ('a;b')'', '''']"
proof -
  have "split_re ''b');'' = [''b')'', '''']"
    by (simp add: lookahead_iff squote_def)
  moreover have "odd (count_list ''INSERT INTO t (s) VALUES ('a'' squote) \<and>
    even (count_list (''INSERT INTO t (s) VALUES ('a'' @ CHR '';'' # ''b');'') squote)"
    by (simp add: squote_def)
  ultimately show ?thesis
    using C8_quoted_semicolon [of "''INSERT INTO t (s) VALUES ('a''" "''b');''"]
    by simp
qed

subsection \<open>Statement classification\<close>

lemma lower_distinct: "distinct (map fst (zip lower_letters upper_letters))"
  by (simp add: lower_letters_def upper_letters_def)

lemma lower_upper_disjoint: "K \<in> set upper_letters \<Longrightarrow> K \<notin> set lower_letters"
  by (auto simp: lower_letters_def upper_letters_def)

lemma toUpperChar_eq_iff:
  assumes K: "K \<in> set upper_letters"
  shows "toUpperChar c = K \<longleftrightarrow> eq_ci c K"
proof
  assume up: "toUpperChar c = K"
  show "eq_ci c K"
  proof (cases "map_of (zip lower_letters upper_letters) c")
    case None
    with up have "c = K" by (simp add: toUpperChar_def)
    then show ?thesis by (simp add: eq_ci_def)
  next
    case (Some u)
    with up have "u = K" by (simp add: toUpperChar_def)
    with Some have "(c, K) \<in> set (zip lower_letters upper_letters)"
      by (auto dest: map_of_SomeD)
    then show ?thesis by (simp add: eq_ci_def)
  qed
next
  assume "eq_ci c K"
  then consider "c = K" | "(c, K) \<in> set (zip lower_letters upper_letters)"
    | "(K, c) \<in> set (zip lower_letters upper_letters)"
    unfolding eq_ci_def by blast
  then show "toUpperChar c = K"
  proof cases
    case 1
    from K have "K \<notin> set lower_letters" by (rule lower_upper_disjoint)
    then have "K \<notin> fst ` set (zip lower_letters upper_letters)"
      by (auto dest: set_zip_leftD)
    then have "map_of (zip lower_letters upper_letters) K = None"
      by (simp add: map_of_eq_None_iff)
    with 1 show ?thesis by (simp add: toUpperChar_def)
  next
    case 2
    then have "map_of (zip lower_letters upper_letters) c = Some K"
      using lower_distinct by (rule_tac map_of_is_SomeI)
    then show ?thesis by (simp add: toUpperChar_def)
  next
    case 3
    then have "K \<in> set lower_letters" by (rule set_zip_leftD)
    with K show ?thesis by (simp add: lower_upper_disjoint)
  qed
qed

lemma startsWith_upper_iff:
  assumes "set kw \<subseteq> set upper_letters"
  shows "startsWith (toUpperCase s) kw \<longleftrightarrow> starts_with_ci s kw"
  using assms
proof (induction kw arbitrary: s)
  case Nil
  then show ?case by (simp add: startsWith_def starts_with_ci_def)
next
  case (Cons K kw)
  show ?case
  proof (cases s)
    case Nil
    then show ?thesis by (simp add: startsWith_def starts_with_ci_def toUpperCase_def)
  next
    case (Cons c cs)
    from Cons.prems have K: "K \<in> set upper_letters" and kw: "set kw \<subseteq> set upper_letters"
      by simp_all
    from Cons.IH [OF kw, of cs] toUpperChar_eq_iff [OF K, of c] Cons
    show ?thesis
      by (auto simp: startsWith_def starts_with_ci_def toUpperCase_def)
  qed
qed

lemma kw_upper: "kw \<in> set mutating_keywords \<Longrightarrow> set kw \<subseteq> set upper_letters"
  by (auto simp: mutating_keywords_def upper_letters_def)

lemma isExecute_iff:
  "isExecute q \<longleftrightarrow> (\<exists>kw \<in> set mutating_keywords. starts_with_ci (trim q) kw)"
proof -
  have "isExecute q \<longleftrightarrow> (\<exists>kw \<in> set mutating_keywords. startsWith (toUpperCase (trim q)) kw)"
    by (simp add: isExecute_def mutating_keywords_def Let_def)
  also have "\<dots> \<longleftrightarrow> (\<exists>kw \<in> set mutating_keywords. starts_with_ci (trim q) kw)"
    using startsWith_upper_iff [OF kw_upper] by blast
  finally show ?thesis .
qed

text \<open>
  C7. A statement is tagged MUTATING if and only if, trimmed and compared without regard
  to case, it starts with CREATE, ALTER, DROP, INSERT, UPDATE, DELETE or TRUNCATE; every
  other statement is tagged QUERY.
\<close>

theorem C7_classify:
  "(classify q = MUTATING \<longleftrightarrow> (\<exists>kw \<in> set mutating_keywords. starts_with_ci (trim q) kw)) \<and>
   (classify q = QUERY \<longleftrightarrow> \<not> (\<exists>kw \<in> set mutating_keywords. starts_with_ci (trim q) kw))"
  by (simp add: classify_def isExecute_iff)

theorem C7_classify_examples:
  "classify ''select * from x'' = QUERY \<and> classify ''Insert into x values (1)'' = MUTATING \<and>
   classify ''  truncate t'' = MUTATING \<and> classify ''EXPLAIN DELETE FROM t'' = QUERY"
  using C7_classify [of "''select * from x''"] C7_classify [of "''Insert into x values (1)''"]
    C7_classify [of "''  truncate t''"] C7_classify [of "''EXPLAIN DELETE FROM t''"]
  by (simp add: mutating_keywords_def starts_with_ci_def trim_def is_ws_def eq_ci_def
      lower_letters_def upper_letters_def)

subsection \<open>Evaluation\<close>

text \<open>The equations that evaluate the string, number, database and handler functions on
  concrete inputs.\<close>

lemmas str_eval = trim_def is_ws_def toLowerCase_def toLowerChar_def toUpperCase_def
  toUpperChar_def lower_letters_def upper_letters_def startsWith_def squote_def dquote_def

lemmas num_eval = parseFloat_def parseInt_def number_toString_def decimal_def overflows_def
  underflows_def strip_zeros.simps show_nat.simps is_digit_def in_range_def digit_val_def
  digits_value_def exponent_part_def exp_digits_def isNaN_def isFinite_def ascii_digits_def
  number_of_nat_def number_of_bigint_def is_zero_def Let_def

lemmas db_eval = same_ident_def has_column_def get_col_def set_col_def key_matches_def
  db_table_info_def db_select_all_def new_row_def db_insert_def db_update_def db_delete_def

lemmas handler_eval = sanitizeTableName_def sanitizeColumnName_def ident_regex_test_def
  ident_char_def json_def row_has_bigint_def getPrimaryKey_def first_row_def query_failed_def

lemma splitQueries_plain_example:
  "splitQueries ''SELECT 1; SELECT 2;'' = [''SELECT 1'', ''SELECT 2'']"
  by (simp add: splitQueries_def trim_def is_ws_def lookahead_iff squote_def)

subsection \<open>Batch execution\<close>







subsection \<open>Type coercion\<close>

text \<open>The rules that hold as the specification words them: null, the empty string and
  any spelling of \<^verbatim>\<open>null\<close> give null whatever the type, and the four examples.\<close>

lemma safeTypeConvert_null:
  "safeTypeConvert None columnType = JNull"
  "safeTypeConvert (Some '''') columnType = JNull"
  "toLowerCase v = ''null'' \<Longrightarrow> safeTypeConvert (Some v) columnType = JNull"
  by (simp_all add: safeTypeConvert_def)

lemma safeTypeConvert_not_a_number:
  assumes "\<not> includes_str columnType ''Boolean''"
    and "includes_str columnType ''Int'' \<or> includes_str columnType ''Float''
      \<or> includes_str columnType ''Decimal''"
    and "isNaN (parseFloat v) \<or> \<not> isFinite (parseFloat v)"
  shows "safeTypeConvert (Some v) columnType = JNull"
  using assms by (auto simp: safeTypeConvert_def Let_def)

lemma safeTypeConvert_examples:
  "safeTypeConvert (Some ''true'') ''Boolean'' = JBool True"
  "safeTypeConvert (Some ''0'') ''Int'' = JNum (Fin False 0 0)"
  "safeTypeConvert (Some '''') ''String'' = JNull"
  "safeTypeConvert (Some ''abc'') ''Float'' = JNull"
  "safeTypeConvert (Some ''12.75'') ''Int'' = JNum (Fin False 12 0)"
  "safeTypeConvert (Some ''12.75'') ''Float'' = JNum (Fin False 1275 (- 2))"
  "safeTypeConvert (Some ''Infinity'') ''Float'' = JNull"
  by (simp_all add: safeTypeConvert_def str_eval num_eval)

text \<open>
  C6. A parseable value of an integer column is truncated to an integer. The source does
  not do that for a value that \<^verbatim>\<open>String\<close> writes with an exponent: the text
  \<^verbatim>\<open>0.0000005\<close> parses to \<open>Fin False 5 (- 7)\<close>, whose string is \<^verbatim>\<open>5e-7\<close>, and \<^verbatim>\<open>parseInt\<close>
  reads the 5: the result is 5, where truncation gives 0.
\<close>

theorem C6_small_value_not_truncated:
  "number_toString (parseFloat ''0.0000005'') = ''5e-7'' \<and>
   safeTypeConvert (Some ''0.0000005'') ''Int'' = JNum (Fin False 5 0)"
  by (simp add: safeTypeConvert_def str_eval num_eval)

subsection \<open>Rows that do not exist\<close>

lemma update_table_same:
  "find_table db t = Some tb \<Longrightarrow> f tb = tb \<Longrightarrow> update_table db t f = db"
  by (induction db t f rule: update_table.induct) (auto split: if_splits)

lemma map_if_no_hit:
  "filter P rows = [] \<Longrightarrow> map (\<lambda>row. if P row then g row else row) rows = rows"
  by (induction rows) (auto split: if_splits)

lemma filter_not_no_hit: "filter P rows = [] \<Longrightarrow> filter (\<lambda>row. \<not> P row) rows = rows"
  by (induction rows) (auto split: if_splits)

lemma db_update_no_hit:
  assumes "find_table db t = Some tb" "has_column tb c" "has_column tb pk"
    and "filter (key_matches pk y) (tbl_rows tb) = []"
  shows "db_update db t c v pk y = Inr ([], db)"
proof -
  have "tb\<lparr>tbl_rows := map (\<lambda>row. if key_matches pk y row then set_col row c v else row)
      (tbl_rows tb)\<rparr> = tb"
    using assms(4) by (simp add: map_if_no_hit)
  with assms(1) have "update_table db t (\<lambda>tb. tb\<lparr>tbl_rows :=
      map (\<lambda>row. if key_matches pk y row then set_col row c v else row) (tbl_rows tb)\<rparr>) = db"
    by (rule update_table_same)
  with assms show ?thesis
    by (simp add: db_update_def)
qed

lemma db_delete_no_hit:
  assumes "find_table db t = Some tb" "has_column tb pk"
    and "filter (key_matches pk y) (tbl_rows tb) = []"
  shows "db_delete db t pk y = Inr (0, db)"
proof -
  have "tb\<lparr>tbl_rows := filter (\<lambda>row. \<not> key_matches pk y row) (tbl_rows tb)\<rparr> = tb"
    using assms(3) by (simp add: filter_not_no_hit)
  with assms(1) have "update_table db t (\<lambda>tb. tb\<lparr>tbl_rows :=
      filter (\<lambda>row. \<not> key_matches pk y row) (tbl_rows tb)\<rparr>) = db"
    by (rule update_table_same)
  with assms show ?thesis
    by (simp add: db_delete_def)
qed

text \<open>
  C4, as the specification states it: for an id that no row has as its key, the update
  and the delete fail with RowNotFound. The source does not: with the one row of \<open>users\<close>
  (key 1) and the id 2, the update answers 200 with an empty object and the delete
  answers 204.
\<close>

theorem C4_missing_row_counterexample:
  "filter (key_matches ''ID'' (parseInt ''2'' None)) (tbl_rows users) = [] \<and>
   fst (put_row [(''users'', users)] ''users'' ''2'' [(''name'', JStr ''Al'')])
     = \<lparr>status = 200, payload = RowBody []\<rparr> \<and>
   fst (delete_row [(''users'', users)] ''users'' ''2'') = \<lparr>status = 204, payload = NoBody\<rparr>"
  by (simp add: put_row_def delete_row_def users_def str_eval num_eval db_eval handler_eval)

text \<open>
  C4, amended. For a table that exists and has the key column and the column to set, and
  an id that no row of the table has as its key: the update answers 200 with an empty
  object, the delete answers 204, and neither changes the database.
\<close>

theorem C4_missing_row_is_success:
  assumes "valid_identifier t" and "find_table db t = Some tb"
    and "has_column tb (getPrimaryKey t)"
    and "filter (key_matches (getPrimaryKey t) (parseInt i None)) (tbl_rows tb) = []"
    and "valid_identifier k" and "has_column tb k"
  shows "put_row db t i ((k, v) # es) = (\<lparr>status = 200, payload = RowBody []\<rparr>, db) \<and>
         delete_row db t i = (\<lparr>status = 204, payload = NoBody\<rparr>, db)"
proof
  have t: "sanitizeTableName t = Inr t" and k: "sanitizeColumnName k = Inr k"
    using assms(1,5)
    by (simp_all add: sanitizeTableName_def sanitizeColumnName_def ident_regex_test_iff)
  have "db_update db t k v (getPrimaryKey t) (parseInt i None) = Inr ([], db)"
    using assms(2,6,3,4) by (rule db_update_no_hit)
  with t k show "put_row db t i ((k, v) # es) = (\<lparr>status = 200, payload = RowBody []\<rparr>, db)"
    by (simp add: put_row_def first_row_def json_def row_has_bigint_def)
  have "db_delete db t (getPrimaryKey t) (parseInt i None) = Inr (0, db)"
    using assms(2,3,4) by (rule db_delete_no_hit)
  with t show "delete_row db t i = (\<lparr>status = 204, payload = NoBody\<rparr>, db)"
    by (simp add: delete_row_def)
qed

theorem C4_missing_row_is_success_witness:
  "put_row [(''users'', users)] ''users'' ''7'' [(''active'', JBool True), (''name'', JStr ''Al'')]
     = (\<lparr>status = 200, payload = RowBody []\<rparr>, [(''users'', users)]) \<and>
   delete_row [(''users'', users)] ''users'' ''7''
     = (\<lparr>status = 204, payload = NoBody\<rparr>, [(''users'', users)])"
proof -
  have t: "valid_identifier ''users''" and k: "valid_identifier ''active''"
    by (simp_all add: valid_identifier_def ascii_letters_def ascii_digits_def)
  have tb: "find_table [(''users'', users)] ''users'' = Some users"
    by (simp add: same_ident_def)
  have pk: "has_column users (getPrimaryKey ''users'')" and c: "has_column users ''active''"
    by (simp_all add: users_def str_eval db_eval handler_eval)
  have none:
    "filter (key_matches (getPrimaryKey ''users'') (parseInt ''7'' None)) (tbl_rows users) = []"
    by (simp add: users_def str_eval num_eval db_eval handler_eval)
  show ?thesis
    by (rule C4_missing_row_is_success [OF t tb pk none k c])
qed

subsection \<open>Insertion\<close>

text \<open>
  C5. An insert drops the field given for the primary key, so that the key of the new
  row is the engine's. The source does not for the key column \<^verbatim>\<open>id\<close> of the
  specification's table: it deletes the field \<^verbatim>\<open>ID\<close> only, the field \<^verbatim>\<open>id\<close> of the body
  reaches the statement, and the new row has the key 7 of the caller, not the key 2 the
  engine would assign.
\<close>

theorem C5_supplied_key_is_stored:
  "post_row [(''users'', users)] ''users'' [(''id'', JNum (Fin False 7 0)), (''name'', JStr ''Ada'')]
   = (\<lparr>status = 201,
       payload =
         RowBody [(''id'', JNum (Fin False 7 0)), (''active'', JNull), (''name'', JStr ''Ada'')]\<rparr>,
      [(''users'',
        users\<lparr>tbl_rows := tbl_rows users @
            [[(''id'', JNum (Fin False 7 0)), (''active'', JNull), (''name'', JStr ''Ada'')]],
          tbl_next := 3\<rparr>)])"
  by (simp add: post_row_def users_def str_eval num_eval db_eval handler_eval)

text \<open>The same body with the field spelt \<^verbatim>\<open>ID\<close>, and the body of the specification's
  example: the key is the engine's.\<close>

lemma post_row_engine_key:
  "fst (post_row [(''users'', users)] ''users''
          [(''ID'', JNum (Fin False 7 0)), (''name'', JStr ''Ada'')])
   = \<lparr>status = 201,
      payload =
        RowBody [(''id'', JNum (Fin False 2 0)), (''active'', JNull), (''name'', JStr ''Ada'')]\<rparr>"
  "fst (post_row [(''users'', users)] ''users''
          [(''active'', safeTypeConvert (Some ''yes'') ''Boolean''), (''name'', JStr ''Ada'')])
   = \<lparr>status = 201,
      payload =
        RowBody [(''id'', JNum (Fin False 2 0)), (''active'', JBool True),
          (''name'', JStr ''Ada'')]\<rparr>"
  by (simp_all add: post_row_def users_def safeTypeConvert_def str_eval num_eval db_eval
      handler_eval)

subsection \<open>Wide integers\<close>

text \<open>The table fetch narrows: no BigInt is left in what it sends.\<close>

lemma processedData_no_bigint: "\<not> list_ex row_has_bigint (processedData data)"
proof -
  have "\<not> is_bigint (case v of JBig b \<Rightarrow> JNum (number_of_bigint b) | _ \<Rightarrow> v)" for v
    by (cases v) simp_all
  then show ?thesis
    by (auto simp: processedData_def row_has_bigint_def list_ex_iff)
qed

lemma get_table_no_bigint: "\<not> has_bigint (payload (get_table db tableName))"
  by (auto simp: get_table_def json_def Let_def processedData_no_bigint
      split: sum.splits)

lemma round53_example: "round53 9007199254740993 = 9007199254740992"
proof -
  have "bit_length 9007199254740993 = 54"
    by (simp add: bit_length.simps)
  then show ?thesis
    by (simp add: round53_def Let_def)
qed

lemma processedData_example:
  "processedData [[(''n'', JBig 9007199254740993)]]
     = [[(''n'', JNum (Fin False 9007199254740992 0))]]"
  by (simp add: processedData_def number_of_bigint_def round53_example decimal_def
      overflows_def underflows_def strip_zeros.simps Let_def)

text \<open>
  C9. Every result narrows the integers wider than a double before it is sent. The
  handler of \<^verbatim>\<open>POST /api/query\<close> does not: a row set that holds a BigInt is passed to
  \<^verbatim>\<open>res.json\<close> as it is, the serialisation throws, and the answer is the status 400
  with that error instead of the rows.
\<close>

theorem C9_query_rows_not_narrowed:
  "post_query executeRaw (\<lambda>db query. (Inr [[(''n'', JBig 9007199254740993)]], db)) db
     (Some ''SELECT n FROM big'')
   = (\<lparr>status = 400, payload = ErrorBody ''Do not know how to serialize a BigInt''\<rparr>, db)"
  by (simp add: post_query_def isExecute_def str_eval handler_eval)

subsection \<open>Update of one field\<close>










end
